theory Spec2Isabelle
  imports Main "HOL-Library.Word" "HOL-Library.Multiset"
begin

section \<open>Python values used by the scanner\<close>

text \<open>
  A Python \<open>str\<close> is a sequence of Unicode code points and is modelled as a list of
  natural numbers; \<open>str\<close> turns an Isabelle string literal into such a list. The
  integers of Python are unbounded and are modelled by \<open>int\<close>; memory exhaustion is
  not part of the model.
\<close>

type_synonym codepoint = nat
type_synonym pystr = "codepoint list"
type_synonym byte = "8 word"

definition str :: "string \<Rightarrow> pystr" where
  "str s = map of_char s"

text \<open>
  \<open>str.isspace\<close>: the code points that \<open>str.strip()\<close> removes. The table is the one
  of the Unicode database the interpreter ships.
\<close>

definition isspace :: "codepoint \<Rightarrow> bool" where
  "isspace c \<longleftrightarrow>
     (9 \<le> c \<and> c \<le> 13) \<or> (28 \<le> c \<and> c \<le> 32) \<or> c = 133 \<or> c = 160 \<or> c = 5760 \<or>
     (8192 \<le> c \<and> c \<le> 8202) \<or> c = 8232 \<or> c = 8233 \<or> c = 8239 \<or> c = 8287 \<or>
     c = 12288"

text \<open>\<open>s.strip()\<close> with no argument: white space is dropped at both ends.\<close>

definition lstrip :: "pystr \<Rightarrow> pystr" where
  "lstrip s = dropWhile isspace s"

definition rstrip :: "pystr \<Rightarrow> pystr" where
  "rstrip s = rev (dropWhile isspace (rev s))"

definition strip :: "pystr \<Rightarrow> pystr" where
  "strip s = rstrip (lstrip s)"

text \<open>\<open>s.split(sep)\<close> for a separator of one character: never an empty list.\<close>

fun split :: "codepoint \<Rightarrow> pystr \<Rightarrow> pystr list" where
  "split sep [] = [[]]"
| "split sep (c # cs) =
     (if c = sep then [] # split sep cs
      else (case split sep cs of
              [] \<Rightarrow> [[c]]
            | w # ws \<Rightarrow> (c # w) # ws))"

text \<open>
  \<open>s.split(sep, 1)\<close> for a string that contains the separator: the text before the
  first occurrence and the text after it.
\<close>

definition split_once :: "codepoint \<Rightarrow> pystr \<Rightarrow> pystr \<times> pystr" where
  "split_once sep s = (takeWhile (\<lambda>c. c \<noteq> sep) s, tl (dropWhile (\<lambda>c. c \<noteq> sep) s))"

text \<open>
  \<open>int(s)\<close> for a string, base ten; \<open>None\<close> stands for \<open>ValueError\<close>. White space
  around the number is skipped; here the interpreter's parser does not count the
  separators U+001C to U+001F as white space, although \<open>strip\<close> does. An optional sign
  follows, then decimal digits, where single underscores may stand between two
  digits. A decimal digit is any code point of the Unicode category Nd: these come
  in runs of ten, zero to nine, and \<open>decimal_zeros\<close> lists the zero of every run
  (Unicode 14.0, the database of Python 3.11). A number written with more than
  \<open>int_max_str_digits\<close> digits makes \<open>int()\<close> raise \<open>ValueError\<close> as well; 4300 is the
  default of the interpreter, which the program does not change.
\<close>

definition int_space :: "codepoint \<Rightarrow> bool" where
  "int_space c \<longleftrightarrow> isspace c \<and> \<not> (28 \<le> c \<and> c \<le> 31)"

definition decimal_zeros :: "codepoint list" where
  "decimal_zeros =
     [
      48, 1632, 1776, 1984, 2406, 2534, 2662, 2790, 2918, 3046,
      3174, 3302, 3430, 3558, 3664, 3792, 3872, 4160, 4240, 6112,
      6160, 6470, 6608, 6784, 6800, 6992, 7088, 7232, 7248, 42528,
      43216, 43264, 43472, 43504, 43600, 44016, 65296, 66720, 68912, 69734,
      69872, 69942, 70096, 70384, 70736, 70864, 71248, 71360, 71472, 71904,
      72016, 72784, 73040, 73120, 92768, 92864, 93008, 120782, 120792, 120802,
      120812, 120822, 123200, 123632, 125264, 130032
     ]"

definition digit_value :: "codepoint \<Rightarrow> nat option" where
  "digit_value c = map_option (\<lambda>z. c - z) (find (\<lambda>z. z \<le> c \<and> c < z + 10) decimal_zeros)"

definition is_digit :: "codepoint \<Rightarrow> bool" where
  "is_digit c \<longleftrightarrow> digit_value c \<noteq> None"

fun scan_digits :: "nat \<Rightarrow> bool \<Rightarrow> pystr \<Rightarrow> nat option" where
  "scan_digits acc prev [] = (if prev then Some acc else None)"
| "scan_digits acc prev (c # cs) =
     (case digit_value c of
        Some d \<Rightarrow> scan_digits (10 * acc + d) True cs
      | None \<Rightarrow>
          if c = 95 \<and> prev then scan_digits acc False cs
          else None)"

definition int_max_str_digits :: nat where
  "int_max_str_digits = 4300"

definition py_int :: "pystr \<Rightarrow> int option" where
  "py_int s =
     (let t = rev (dropWhile int_space (rev (dropWhile int_space s))) in
      case t of
        [] \<Rightarrow> None
      | c # r \<Rightarrow>
          if int_max_str_digits < length (filter is_digit t) then None
          else if c = 43 then map_option int (scan_digits 0 False r)
          else if c = 45 then map_option (\<lambda>n. - int n) (scan_digits 0 False r)
          else map_option int (scan_digits 0 False t))"

text \<open>
  \<open>s.lower()\<close>. The letters of U+0000 to U+00FF are mapped as Python maps them; a code
  point above that range is left as it is. Python maps further letters there, but
  only two of them to text with a letter of \<open>a\<close> to \<open>z\<close> in it (U+0130 to \<open>i\<close> followed
  by U+0307, U+212A to \<open>k\<close>), and neither result can be part of a keyword that
  \<open>infer_service\<close> looks for, so its tests come out the same.
\<close>

definition lower_cp :: "codepoint \<Rightarrow> codepoint" where
  "lower_cp c =
     (if (65 \<le> c \<and> c \<le> 90) \<or> (192 \<le> c \<and> c \<le> 222 \<and> c \<noteq> 215) then c + 32 else c)"

definition lower :: "pystr \<Rightarrow> pystr" where
  "lower s = map lower_cp s"

text \<open>\<open>pat in s\<close> for two strings: \<open>pat\<close> occurs in \<open>s\<close> as a contiguous run.\<close>

fun startswith :: "pystr \<Rightarrow> pystr \<Rightarrow> bool" where
  "startswith [] s = True"
| "startswith (p # ps) [] = False"
| "startswith (p # ps) (c # cs) = (p = c \<and> startswith ps cs)"

fun contains :: "pystr \<Rightarrow> pystr \<Rightarrow> bool" where
  "contains pat [] = (pat = [])"
| "contains pat (c # cs) = (startswith pat (c # cs) \<or> contains pat cs)"

text \<open>
  \<open>data.decode(errors="ignore")\<close>: UTF-8, where a byte that does not begin a
  well-formed sequence is dropped and decoding goes on at the next byte.
  \<open>utf8_next b bs\<close> reads one well-formed sequence with lead byte \<open>b\<close> and gives its
  code point and the number of bytes of \<open>bs\<close> that belong to it.
\<close>

definition is_cont :: "byte \<Rightarrow> bool" where
  "is_cont b \<longleftrightarrow> 0x80 \<le> b \<and> b \<le> 0xBF"

definition utf8_next :: "byte \<Rightarrow> byte list \<Rightarrow> (codepoint \<times> nat) option" where
  "utf8_next b bs =
     (if b < 0x80 then Some (unat b, 0)
      else if 0xC2 \<le> b \<and> b \<le> 0xDF then
        (case bs of
           c1 # r \<Rightarrow>
             if is_cont c1 then Some (64 * (unat b - 192) + (unat c1 - 128), 1) else None
         | _ \<Rightarrow> None)
      else if 0xE0 \<le> b \<and> b \<le> 0xEF then
        (case bs of
           c1 # c2 # r \<Rightarrow>
             if is_cont c1 \<and> is_cont c2 \<and> \<not> (b = 0xE0 \<and> c1 < 0xA0) \<and> \<not> (b = 0xED \<and> 0xA0 \<le> c1)
             then Some (4096 * (unat b - 224) + 64 * (unat c1 - 128) + (unat c2 - 128), 2)
             else None
         | _ \<Rightarrow> None)
      else if 0xF0 \<le> b \<and> b \<le> 0xF4 then
        (case bs of
           c1 # c2 # c3 # r \<Rightarrow>
             if is_cont c1 \<and> is_cont c2 \<and> is_cont c3 \<and> \<not> (b = 0xF0 \<and> c1 < 0x90)
                \<and> \<not> (b = 0xF4 \<and> 0x90 \<le> c1)
             then Some (262144 * (unat b - 240) + 4096 * (unat c1 - 128)
                        + 64 * (unat c2 - 128) + (unat c3 - 128), 3)
             else None
         | _ \<Rightarrow> None)
      else None)"

function decode_ignore :: "byte list \<Rightarrow> pystr" where
  "decode_ignore [] = []"
| "decode_ignore (b # bs) =
     (case utf8_next b bs of
        Some (cp, n) \<Rightarrow> cp # decode_ignore (drop n bs)
      | None \<Rightarrow> decode_ignore bs)"
  by pat_completeness auto
termination
  by (relation "measure length") auto

text \<open>
  The exceptions the library calls of the scanner raise, all of them subclasses of
  \<open>Exception\<close>. \<open>OSError\<close> stands for every operating system error that has no
  constructor of its own, \<open>OtherException\<close> for every exception that is no
  \<open>OSError\<close>. Nothing in the program cancels a task, and cancellation from outside
  is not modelled.
\<close>

datatype exn =
    AsyncioTimeoutError
  | ConnectionRefusedError
  | ConnectionResetError
  | OSError
  | IncompleteReadError
  | gaierror
  | ValueError
  | OtherException

fun is_OSError :: "exn \<Rightarrow> bool" where
  "is_OSError ConnectionRefusedError = True"
| "is_OSError ConnectionResetError = True"
| "is_OSError OSError = True"
| "is_OSError gaierror = True"
| "is_OSError e = False"

text \<open>
  What a call does: it returns a value, raises, or never returns (a coroutine that
  waits forever).
\<close>

datatype 'a outcome = Returns 'a | Raises exn | Hangs

section \<open>utils.py\<close>

definition TOP_TCP_PORTS :: "int list" where
  "TOP_TCP_PORTS =
     [21, 22, 23, 25, 53, 80, 110, 111, 135, 139, 143, 443, 445,
      587, 993, 995, 3306, 3389, 5900, 8080]"

subsection \<open>resolve_target\<close>

text \<open>
  The two library calls are the environment: \<open>inet_aton\<close> gives the exception that
  \<open>socket.inet_aton\<close> raises for the text (\<open>OSError\<close> for text that is no IPv4
  address), or nothing when it accepts the text, and \<open>getaddrinfo\<close> gives the IPv4
  addresses of the lookup, in order, or the exception the lookup raises.
\<close>

record resolver =
  inet_aton :: "pystr \<Rightarrow> exn option"
  getaddrinfo :: "pystr \<Rightarrow> exn + pystr list"

definition resolve_target :: "resolver \<Rightarrow> pystr \<Rightarrow> pystr outcome" where
  "resolve_target dns target =
     (case inet_aton dns target of
        None \<Rightarrow> Returns target
      | Some e \<Rightarrow>
          if is_OSError e then
            (case getaddrinfo dns target of
               Inl e' \<Rightarrow> Raises e'
             | Inr [] \<Rightarrow> Raises gaierror
             | Inr (a # _) \<Rightarrow> Returns a)
          else Raises e)"

subsection \<open>infer_service\<close>

definition SERVICE_MAP :: "(int \<times> pystr) list" where
  "SERVICE_MAP =
     [(21, str ''ftp''), (22, str ''ssh''), (23, str ''telnet''), (25, str ''smtp''),
      (53, str ''dns''), (80, str ''http''), (110, str ''pop3''), (143, str ''imap''),
      (443, str ''https''), (3306, str ''mysql''), (3389, str ''rdp''),
      (5900, str ''vnc''), (8080, str ''http-alt'')]"

text \<open>\<open>if banner:\<close> holds for a banner that is present and not the empty string.\<close>

definition infer_service :: "int \<Rightarrow> pystr option \<Rightarrow> pystr option" where
  "infer_service port banner =
     (case map_of SERVICE_MAP port of
        Some label \<Rightarrow> Some label
      | None \<Rightarrow>
          (case banner of
             None \<Rightarrow> None
           | Some text \<Rightarrow>
               if text = [] then None
               else
                 (let b = lower text in
                  if contains (str ''ssh'') b then Some (str ''ssh'')
                  else if contains (str ''http'') b \<or> contains (str ''apache'') b
                          \<or> contains (str ''nginx'') b then Some (str ''http'')
                  else if contains (str ''smtp'') b then Some (str ''smtp'')
                  else if contains (str ''mysql'') b \<or> contains (str ''mariadb'') b
                       then Some (str ''mysql'')
                  else if contains (str ''rdp'') b \<or> contains (str ''mstsc'') b
                       then Some (str ''rdp'')
                  else None)))"

text \<open>
  The order of precedence as the specification words it: the port table first;
  otherwise, for a banner that is present, the first rule of a fixed ordered list
  one of whose keywords occurs in the banner, case ignored; otherwise nothing.
\<close>

definition keyword_rules :: "(pystr list \<times> pystr) list" where
  "keyword_rules =
     [([str ''ssh''], str ''ssh''),
      ([str ''http'', str ''apache'', str ''nginx''], str ''http''),
      ([str ''smtp''], str ''smtp''),
      ([str ''mysql'', str ''mariadb''], str ''mysql''),
      ([str ''rdp'', str ''mstsc''], str ''rdp'')]"

definition infer_service_spec :: "int \<Rightarrow> pystr option \<Rightarrow> pystr option" where
  "infer_service_spec port banner =
     (case map_of SERVICE_MAP port of
        Some label \<Rightarrow> Some label
      | None \<Rightarrow>
          (case banner of
             None \<Rightarrow> None
           | Some text \<Rightarrow>
               map_option snd
                 (find (\<lambda>(keywords, label). list_ex (\<lambda>k. contains k (lower text)) keywords)
                    keyword_rules)))"

section \<open>scanner.py\<close>

subsection \<open>parse_ports\<close>

text \<open>
  One round of the loop over the comma-separated parts. \<open>ports\<close> is the set built so
  far; a part whose conversion raises \<open>ValueError\<close> leaves it unchanged
  (\<open>continue\<close>). \<open>range(start_i, end_i + 1)\<close> is \<open>[start_i..end_i]\<close>.
\<close>

definition parse_part :: "pystr \<Rightarrow> int set \<Rightarrow> int set" where
  "parse_part part0 ports =
     (let part = strip part0 in
      if 45 \<in> set part then
        (case split_once 45 part of (start, end) \<Rightarrow>
           (case py_int start of
              None \<Rightarrow> ports
            | Some start_i \<Rightarrow>
                (case py_int end of
                   None \<Rightarrow> ports
                 | Some end_i \<Rightarrow> ports \<union> set [start_i..end_i])))
      else
        (case py_int part of
           None \<Rightarrow> ports
         | Some p \<Rightarrow> insert p ports))"

definition valid_port :: "int \<Rightarrow> bool" where
  "valid_port p \<longleftrightarrow> 1 \<le> p \<and> p \<le> 65535"

definition parse_ports :: "pystr option \<Rightarrow> int list" where
  "parse_ports ports_arg =
     (case ports_arg of
        None \<Rightarrow> TOP_TCP_PORTS
      | Some s \<Rightarrow>
          if s = [] then TOP_TCP_PORTS
          else sorted_list_of_set
                 (Set.filter valid_port (fold parse_part (split 44 s) {})))"

text \<open>
  A token that \<open>parse_ports\<close> is to leave out: it is malformed (a conversion raises
  \<open>ValueError\<close>), or it is out of range (its number, or every number of its range,
  lies outside 1 to 65535).
\<close>

definition rejected_token :: "pystr \<Rightarrow> bool" where
  "rejected_token t \<longleftrightarrow>
     (let part = strip t in
      if 45 \<in> set part then
        (case split_once 45 part of (start, end) \<Rightarrow>
           (case py_int start of
              None \<Rightarrow> True
            | Some start_i \<Rightarrow>
                (case py_int end of
                   None \<Rightarrow> True
                 | Some end_i \<Rightarrow> end_i < 1 \<or> 65535 < start_i)))
      else
        (case py_int part of
           None \<Rightarrow> True
         | Some p \<Rightarrow> p < 1 \<or> 65535 < p))"

text \<open>
  The same loop with the set kept as a list, for computing \<open>parse_ports\<close> on given
  text: \<open>parse_ports_list\<close> below relates the two.
\<close>

definition parse_part_list :: "pystr \<Rightarrow> int list \<Rightarrow> int list" where
  "parse_part_list part0 ports =
     (let part = strip part0 in
      if 45 \<in> set part then
        (case split_once 45 part of (start, end) \<Rightarrow>
           (case py_int start of
              None \<Rightarrow> ports
            | Some start_i \<Rightarrow>
                (case py_int end of
                   None \<Rightarrow> ports
                 | Some end_i \<Rightarrow> ports @ [start_i..end_i])))
      else
        (case py_int part of
           None \<Rightarrow> ports
         | Some p \<Rightarrow> p # ports))"




subsection \<open>The network as the scanner sees it\<close>

text \<open>
  An open connection is the pair \<open>(reader, writer)\<close>. Its behaviour is given by
  what the awaited calls on it do: \<open>read_event\<close> is the exception the awaited
  \<open>reader.read\<close> raises (\<open>AsyncioTimeoutError\<close> when \<open>wait_for\<close> gives up), or
  the bytes in the reader's buffer when the read wakes up, of which \<open>read(n)\<close>
  returns the first \<open>n\<close> (none at end of file); \<open>close_event\<close> and
  \<open>wait_closed_event\<close> are the exceptions of \<open>writer.close()\<close> and
  \<open>writer.wait_closed()\<close>, if any. Time is not modelled: a timeout is one of the
  events.
\<close>

record connection =
  read_event :: "exn + byte list"
  close_event :: "exn option"
  wait_closed_event :: "exn option"

definition reader_read :: "nat \<Rightarrow> connection \<Rightarrow> exn + byte list" where
  "reader_read n conn =
     (case read_event conn of
        Inl e \<Rightarrow> Inl e
      | Inr buffer \<Rightarrow> Inr (take n buffer))"

text \<open>The state of the writer: how often each of its two methods was called.\<close>

record writer =
  close_calls :: nat
  wait_closed_calls :: nat

definition new_writer :: writer where
  "new_writer = \<lparr>close_calls = 0, wait_closed_calls = 0\<rparr>"

text \<open>
  The awaited \<open>wait_for(open_connection(ip, port), timeout)\<close> of the task with
  index \<open>k\<close> in the list of tasks.
\<close>

datatype connect_event = ConnectOk connection | ConnectRaises exn

type_synonym network = "pystr \<Rightarrow> int \<Rightarrow> nat \<Rightarrow> connect_event"

subsection \<open>try_connect\<close>

definition try_connect :: "network \<Rightarrow> nat \<Rightarrow> pystr \<Rightarrow> int \<Rightarrow> connection option outcome" where
  "try_connect net k ip port =
     (case net ip port k of
        ConnectOk conn \<Rightarrow> Returns (Some conn)
      | ConnectRaises e \<Rightarrow>
          if e = AsyncioTimeoutError \<or> e = ConnectionRefusedError \<or> is_OSError e
          then Returns None
          else Raises e)"

subsection \<open>grab_banner\<close>

text \<open>
  The \<open>finally\<close> block: \<open>writer.close()\<close>, then \<open>await writer.wait_closed()\<close>, with
  \<open>except Exception: pass\<close> around both, so that an exception of either call ends
  the block without leaving it. The result is the writer afterwards.
\<close>

definition close_writer :: "connection \<Rightarrow> writer \<Rightarrow> writer" where
  "close_writer conn w =
     (let w1 = w\<lparr>close_calls := close_calls w + 1\<rparr> in
      case close_event conn of
        Some e \<Rightarrow> w1
      | None \<Rightarrow>
          (let w2 = w1\<lparr>wait_closed_calls := wait_closed_calls w1 + 1\<rparr> in
           case wait_closed_event conn of
             Some e \<Rightarrow> w2
           | None \<Rightarrow> w2))"

text \<open>
  The \<open>try\<close> block with its \<open>except\<close> clause, then the \<open>finally\<close> block, which
  runs on every way out of the \<open>try\<close> block. The result is what the call does and
  the writer afterwards.
\<close>

definition grab_banner :: "connection \<Rightarrow> writer \<Rightarrow> pystr option outcome \<times> writer" where
  "grab_banner conn w =
     (let body =
        (case reader_read 256 conn of
           Inr data \<Rightarrow>
             if data \<noteq> [] then Returns (Some (strip (decode_ignore data)))
             else Returns None
         | Inl e \<Rightarrow>
             if e = AsyncioTimeoutError \<or> e = IncompleteReadError then Returns None
             else Raises e)
      in (body, close_writer conn w))"

subsection \<open>scan_port\<close>

record port_result =
  port :: int
  status :: pystr
  banner :: "pystr option"
  service :: "pystr option"

text \<open>
  The body of \<open>async with semaphore\<close>; the semaphore itself is in \<open>run_scan\<close>.
\<close>

definition scan_port :: "network \<Rightarrow> nat \<Rightarrow> pystr \<Rightarrow> int \<Rightarrow> port_result outcome" where
  "scan_port net k ip p =
     (let result = \<lparr>port = p, status = str ''closed'', banner = None, service = None\<rparr> in
      case try_connect net k ip p of
        Raises e \<Rightarrow> Raises e
      | Hangs \<Rightarrow> Hangs
      | Returns None \<Rightarrow> Returns result
      | Returns (Some conn) \<Rightarrow>
          (case fst (grab_banner conn new_writer) of
             Raises e \<Rightarrow> Raises e
           | Hangs \<Rightarrow> Hangs
           | Returns b \<Rightarrow>
               Returns (result\<lparr>status := str ''open'', banner := b,
                                service := infer_service p b\<rparr>)))"

subsection \<open>run_scan\<close>

text \<open>
  \<open>asyncio.gather\<close>: when every task returns, the results in the order of the
  tasks. When tasks raise, \<open>gather\<close> passes on the exception that is raised first in
  time: \<open>finished k\<close> is the moment at which the task with index \<open>k\<close> ends, and of
  two tasks that end at the same moment the one earlier in the list counts as the
  first. When no task raises and some task never ends, \<open>gather\<close> never returns.
\<close>

fun returned :: "'a outcome list \<Rightarrow> 'a list option" where
  "returned [] = Some []"
| "returned (Returns r # ts) = map_option ((#) r) (returned ts)"
| "returned (t # ts) = None"

fun raised :: "(nat \<Rightarrow> nat) \<Rightarrow> nat \<Rightarrow> 'a outcome list \<Rightarrow> (nat \<times> exn) list" where
  "raised finished k [] = []"
| "raised finished k (Raises e # ts) = (finished k, e) # raised finished (Suc k) ts"
| "raised finished k (t # ts) = raised finished (Suc k) ts"

fun earliest :: "(nat \<times> exn) list \<Rightarrow> (nat \<times> exn) option" where
  "earliest [] = None"
| "earliest (x # xs) =
     (case earliest xs of
        None \<Rightarrow> Some x
      | Some y \<Rightarrow> if fst x \<le> fst y then Some x else Some y)"

definition gather :: "(nat \<Rightarrow> nat) \<Rightarrow> 'a outcome list \<Rightarrow> 'a list outcome" where
  "gather finished ts =
     (case earliest (raised finished 0 ts) of
        Some (moment, e) \<Rightarrow> Raises e
      | None \<Rightarrow>
          (case returned ts of
             Some rs \<Rightarrow> Returns rs
           | None \<Rightarrow> Hangs))"

text \<open>
  \<open>asyncio.Semaphore(concurrency)\<close> raises \<open>ValueError\<close> for a negative value. With
  the value zero no task ever enters \<open>async with semaphore\<close>, so \<open>gather\<close> does
  not return unless there is no task. \<open>sorted(results, key=...)\<close> is a stable sort.
\<close>

definition run_scan ::
  "resolver \<Rightarrow> network \<Rightarrow> (nat \<Rightarrow> nat) \<Rightarrow> pystr \<Rightarrow> int list \<Rightarrow> int
     \<Rightarrow> port_result list outcome" where
  "run_scan dns net finished target ports concurrency =
     (case resolve_target dns target of
        Raises e \<Rightarrow> Raises e
      | Hangs \<Rightarrow> Hangs
      | Returns ip \<Rightarrow>
          if concurrency < 0 then Raises ValueError
          else if concurrency = 0 \<and> ports \<noteq> [] then Hangs
          else
            (case gather finished (map (\<lambda>(k, p). scan_port net k ip p) (enumerate 0 ports)) of
               Raises e \<Rightarrow> Raises e
             | Hangs \<Rightarrow> Hangs
             | Returns results \<Rightarrow> Returns (sort_key port results)))"

text \<open>
  A probe whose events \<open>scan_port\<close> handles: the connection attempt succeeds or
  fails with an exception that \<open>try_connect\<close> catches, and the banner read
  returns bytes or fails with an exception that \<open>grab_banner\<close> catches.
\<close>

definition probe_completes :: "connect_event \<Rightarrow> bool" where
  "probe_completes ev =
     (case ev of
        ConnectRaises e \<Rightarrow> e = AsyncioTimeoutError \<or> e = ConnectionRefusedError \<or> is_OSError e
      | ConnectOk conn \<Rightarrow>
          (case read_event conn of
             Inr buffer \<Rightarrow> True
           | Inl e \<Rightarrow> e = AsyncioTimeoutError \<or> e = IncompleteReadError))"

section \<open>Port specifications\<close>

subsection \<open>Computing with the definitions\<close>

lemmas py_eval = str_def isspace_def lstrip_def rstrip_def strip_def split_once_def
  int_space_def is_digit_def digit_value_def decimal_zeros_def int_max_str_digits_def py_int_def

lemma set_parse_part_list: "set (parse_part_list part xs) = parse_part part (set xs)"
  by (simp add: parse_part_list_def parse_part_def Let_def split: prod.splits option.splits)

lemma set_fold_parse_part_list:
  "set (fold parse_part_list ps xs) = fold parse_part ps (set xs)"
  by (induction ps arbitrary: xs) (simp_all add: set_parse_part_list)

lemma parse_ports_list:
  "s \<noteq> [] \<Longrightarrow>
   parse_ports (Some s) = sort (remdups (filter valid_port (fold parse_part_list (split 44 s) [])))"
proof -
  assume "s \<noteq> []"
  have "Set.filter valid_port (fold parse_part (split 44 s) {})
        = set (filter valid_port (fold parse_part_list (split 44 s) []))"
    using set_fold_parse_part_list [of "split 44 s" "[]"] by (simp only: set_filter Set.filter_eq list.set)
  with \<open>s \<noteq> []\<close> show ?thesis
    unfolding parse_ports_def
    by (simp only: option.case if_False sorted_list_of_set_sort_remdups)
qed

subsection \<open>The parsed ports are finitely many, ascending and valid\<close>

lemma finite_parse_part: "finite A \<Longrightarrow> finite (parse_part part A)"
  by (simp add: parse_part_def Let_def split: prod.splits option.splits)

lemma finite_fold_parse_part: "finite A \<Longrightarrow> finite (fold parse_part ps A)"
  by (induction ps arbitrary: A) (simp_all add: finite_parse_part)

lemma top_ok: "sorted_wrt (<) TOP_TCP_PORTS \<and> set TOP_TCP_PORTS \<subseteq> {1..65535}"
  by (simp add: TOP_TCP_PORTS_def)

lemma parse_ports_sorted: "sorted_wrt (<) (parse_ports a) \<and> distinct (parse_ports a) \<and> set (parse_ports a) \<subseteq> {1..65535}"
proof (cases "\<exists>s. a = Some s \<and> s \<noteq> []")
  case True
  then obtain s where a: "a = Some s" "s \<noteq> []" by blast
  let ?A = "Set.filter valid_port (fold parse_part (split 44 s) {})"
  have fin: "finite ?A" by (simp add: finite_fold_parse_part)
  have p: "parse_ports a = sorted_list_of_set ?A" using a by (simp add: parse_ports_def)
  have "set (sorted_list_of_set ?A) = ?A" using fin by simp
  moreover have "?A \<subseteq> {1..65535}" by (auto simp: valid_port_def)
  ultimately show ?thesis using p by (simp add: strict_sorted_iff[symmetric])
next
  case False
  then have "parse_ports a = TOP_TCP_PORTS" by (cases a) (auto simp: parse_ports_def)
  then show ?thesis using top_ok by (simp add: strict_sorted_iff)
qed

subsection \<open>Splitting at commas, and the set a part adds\<close>

lemma split_nonempty: "split sep s \<noteq> []"
  by (induction s) (auto split: list.splits)

lemma split_append: "split sep (s @ sep # t) = split sep s @ split sep t"
  by (induction s) (auto split: list.splits simp: split_nonempty)

lemma split_no_sep: "sep \<notin> set s \<Longrightarrow> split sep s = [s]"
  by (induction s) auto

lemma parse_part_union: "parse_part part A = A \<union> parse_part part {}"
  by (auto simp: parse_part_def Let_def split: prod.splits option.splits)

lemma fold_parse_part_union: "fold parse_part ps A = A \<union> fold parse_part ps {}"
proof (induction ps arbitrary: A)
  case Nil
  show ?case by simp
next
  case (Cons p ps)
  have "fold parse_part (p # ps) A = parse_part p A \<union> fold parse_part ps {}"
    using Cons.IH [of "parse_part p A"] by simp
  also have "\<dots> = A \<union> (parse_part p {} \<union> fold parse_part ps {})"
    using parse_part_union [of p A] by auto
  also have "parse_part p {} \<union> fold parse_part ps {} = fold parse_part (p # ps) {}"
    using Cons.IH [of "parse_part p {}"] by simp
  finally show ?case .
qed

subsection \<open>Decimal numerals are read back by \<open>int()\<close>\<close>
























lemma parse_ports_nonempty:
  "s \<noteq> [] \<Longrightarrow> parse_ports (Some s) =
     sorted_list_of_set (Set.filter valid_port (fold parse_part (split 44 s) {}))"
  by (simp add: parse_ports_def)

lemma fold_parse_part_append_token:
  "fold parse_part (split 44 (s @ 44 # t)) {} = fold parse_part (split 44 s) {} \<union> fold parse_part (split 44 t) {}"
  using fold_parse_part_union [of "split 44 t" "fold parse_part (split 44 s) {}"]
  by (simp add: split_append)


lemma rejected_adds_nothing:
  "rejected_token t \<Longrightarrow> Set.filter valid_port (parse_part t {}) = {}"
  by (auto simp: rejected_token_def parse_part_def valid_port_def Let_def
           split: if_splits prod.splits option.splits)

lemma rejected_token_dropped:
  assumes "rejected_token t" and "44 \<notin> set t"
  shows "Set.filter valid_port (fold parse_part (split 44 (u @ 44 # t @ 44 # v)) {})
           = Set.filter valid_port (fold parse_part (split 44 (u @ 44 # v)) {})"
    and "Set.filter valid_port (fold parse_part (split 44 (t @ 44 # v)) {})
           = Set.filter valid_port (fold parse_part (split 44 v) {})"
    and "Set.filter valid_port (fold parse_part (split 44 (u @ 44 # t)) {})
           = Set.filter valid_port (fold parse_part (split 44 u) {})"
    and "Set.filter valid_port (fold parse_part (split 44 t) {}) = {}"
proof -
  have t: "fold parse_part (split 44 t) {} = parse_part t {}"
    using assms(2) by (simp add: split_no_sep)
  have r: "Set.filter valid_port (parse_part t {}) = {}"
    using assms(1) by (rule rejected_adds_nothing)
  show "Set.filter valid_port (fold parse_part (split 44 t) {}) = {}"
    using r by (simp only: t)
  show "Set.filter valid_port (fold parse_part (split 44 (t @ 44 # v)) {})
           = Set.filter valid_port (fold parse_part (split 44 v) {})"
    using r by (auto simp: fold_parse_part_append_token t)
  show "Set.filter valid_port (fold parse_part (split 44 (u @ 44 # t)) {})
           = Set.filter valid_port (fold parse_part (split 44 u) {})"
    using r by (auto simp: fold_parse_part_append_token t)
  have "fold parse_part (split 44 (u @ 44 # t @ 44 # v)) {}
          = fold parse_part (split 44 u) {} \<union> (parse_part t {} \<union> fold parse_part (split 44 v) {})"
    using fold_parse_part_append_token [of u "t @ 44 # v"]
          fold_parse_part_append_token [of t v]
    by (simp only: t)
  then show "Set.filter valid_port (fold parse_part (split 44 (u @ 44 # t @ 44 # v)) {})
           = Set.filter valid_port (fold parse_part (split 44 (u @ 44 # v)) {})"
    using r by (auto simp: fold_parse_part_append_token)
qed

subsection \<open>The claims about \<open>parse_ports\<close>\<close>

text \<open>
  Claim C4. \<open>parse_ports\<close> meets the examples of the specification: \<open>"22,80,443"\<close>
  gives 22, 80, 443; \<open>"1-3"\<close> gives 1, 2, 3; \<open>"22-20"\<close>, a range whose start
  exceeds its end, gives the empty list and no error; the empty and the absent
  specification give the curated default list \<open>TOP_TCP_PORTS\<close>.
\<close>

theorem parse_ports_examples:
  "parse_ports (Some (str ''22,80,443'')) = [22, 80, 443] \<and>
   parse_ports (Some (str ''1-3'')) = [1, 2, 3] \<and>
   parse_ports (Some (str ''22-20'')) = [] \<and>
   parse_ports (Some (str '''')) = TOP_TCP_PORTS \<and>
   parse_ports None = TOP_TCP_PORTS"
proof -
  have "parse_ports (Some (str ''22,80,443'')) = [22, 80, 443]"
    by (simp add: parse_ports_list parse_part_list_def py_eval valid_port_def)
  moreover have "parse_ports (Some (str ''1-3'')) = [1, 2, 3]"
    by (simp add: parse_ports_list parse_part_list_def py_eval valid_port_def upto.simps)
  moreover have "parse_ports (Some (str ''22-20'')) = []"
    by (simp add: parse_ports_list parse_part_list_def py_eval valid_port_def)
  moreover have "parse_ports (Some (str '''')) = TOP_TCP_PORTS \<and> parse_ports None = TOP_TCP_PORTS"
    by (simp add: parse_ports_def str_def)
  ultimately show ?thesis by blast
qed




lemma parse_ports_unicode_digits:
  "parse_ports (Some (str ''80,'' @ [1634, 1634])) = [22, 80]"
  by (simp add: parse_ports_list parse_part_list_def py_eval valid_port_def)

text \<open>
  Claim C3. For every port specification, absent or any text, \<open>parse_ports\<close>
  returns a strictly ascending list without duplicates whose members all lie in
  1 to 65535. No token aborts the parse: \<open>parse_ports\<close> raises nothing, and a token
  \<open>t\<close> that is malformed or out of range (such as \<open>abc\<close>, \<open>0\<close>, \<open>70000\<close>) is left
  out wherever it stands: between other text, first, last or alone, the result is
  that of the specification without it.
\<close>

theorem parse_ports_ascending_valid:
  "sorted_wrt (<) (parse_ports ports_arg) \<and> distinct (parse_ports ports_arg) \<and>
   set (parse_ports ports_arg) \<subseteq> {1..65535} \<and>
   (rejected_token t \<and> 44 \<notin> set t \<longrightarrow>
      parse_ports (Some (u @ str '','' @ t @ str '','' @ v)) = parse_ports (Some (u @ str '','' @ v)) \<and>
      (v \<noteq> [] \<longrightarrow> parse_ports (Some (t @ str '','' @ v)) = parse_ports (Some v)) \<and>
      (u \<noteq> [] \<longrightarrow> parse_ports (Some (u @ str '','' @ t)) = parse_ports (Some u)) \<and>
      (t \<noteq> [] \<longrightarrow> parse_ports (Some t) = []))"
proof -
  have c: "str '','' = [44]" by (simp add: str_def)
  have dropped:
    "parse_ports (Some (u @ str '','' @ t @ str '','' @ v)) = parse_ports (Some (u @ str '','' @ v)) \<and>
     (v \<noteq> [] \<longrightarrow> parse_ports (Some (t @ str '','' @ v)) = parse_ports (Some v)) \<and>
     (u \<noteq> [] \<longrightarrow> parse_ports (Some (u @ str '','' @ t)) = parse_ports (Some u)) \<and>
     (t \<noteq> [] \<longrightarrow> parse_ports (Some t) = [])"
    if r: "rejected_token t" and k: "44 \<notin> set t"
  proof -
    note d = rejected_token_dropped [OF r k]
    have n: "u @ 44 # t @ 44 # v \<noteq> []" "u @ 44 # v \<noteq> []" "t @ 44 # v \<noteq> []" "u @ 44 # t \<noteq> []"
      by simp_all
    have "parse_ports (Some (u @ 44 # t @ 44 # v)) = parse_ports (Some (u @ 44 # v))"
      using d(1) [of u v] by (simp only: parse_ports_nonempty [OF n(1)] parse_ports_nonempty [OF n(2)])
    moreover have "parse_ports (Some (t @ 44 # v)) = parse_ports (Some v)" if "v \<noteq> []"
      using d(2) [of v] by (simp only: parse_ports_nonempty [OF n(3)] parse_ports_nonempty [OF that])
    moreover have "parse_ports (Some (u @ 44 # t)) = parse_ports (Some u)" if "u \<noteq> []"
      using d(3) [of u] by (simp only: parse_ports_nonempty [OF n(4)] parse_ports_nonempty [OF that])
    moreover have "parse_ports (Some t) = []" if "t \<noteq> []"
      using d(4) by (simp only: parse_ports_nonempty [OF that] sorted_list_of_set_empty)
    ultimately show ?thesis by (simp add: c)
  qed
  then show ?thesis using parse_ports_sorted [of ports_arg] by blast
qed

theorem parse_ports_ascending_valid_witness:
  "rejected_token (str ''abc'') \<and> rejected_token (str ''0'') \<and>
   rejected_token (str ''70000'') \<and> rejected_token (str ''7x-9'') \<and>
   44 \<notin> set (str ''abc'') \<and> str ''abc'' \<noteq> [] \<and> str ''80'' \<noteq> [] \<and> str ''22'' \<noteq> [] \<and>
   parse_ports (Some (str ''22,abc,80'')) = parse_ports (Some (str ''22,80'')) \<and>
   parse_ports (Some (str ''abc,80'')) = parse_ports (Some (str ''80'')) \<and>
   parse_ports (Some (str ''22,abc'')) = parse_ports (Some (str ''22'')) \<and>
   parse_ports (Some (str ''abc'')) = [] \<and>
   parse_ports (Some (str ''0,70000,abc,22'')) = [22] \<and>
   sorted_wrt (<) (parse_ports (Some (str ''443,22,80,22''))) \<and>
   set (parse_ports (Some (str ''443,22,80,22''))) \<subseteq> {1..65535}"
proof -
  have r: "rejected_token (str ''abc'') \<and> rejected_token (str ''0'') \<and>
     rejected_token (str ''70000'') \<and> rejected_token (str ''7x-9'')"
    by (simp add: rejected_token_def py_eval)
  have h: "44 \<notin> set (str ''abc'') \<and> str ''abc'' \<noteq> [] \<and> str ''80'' \<noteq> [] \<and> str ''22'' \<noteq> []"
    by (simp add: str_def)
  have x: "parse_ports (Some (str ''0,70000,abc,22'')) = [22]"
    by (simp add: parse_ports_list parse_part_list_def py_eval valid_port_def)
  show ?thesis
    using r h x
      parse_ports_ascending_valid
        [of "Some (str ''443,22,80,22'')" "str ''abc''" "str ''22''" "str ''80''"]
    by (simp add: str_def)
qed








section \<open>Service inference\<close>

lemma infer_service_refines: "infer_service p b = infer_service_spec p b"
proof (cases "map_of SERVICE_MAP p")
  case (Some label)
  then show ?thesis by (simp add: infer_service_def infer_service_spec_def)
next
  case None
  show ?thesis
  proof (cases b)
    case n: None
    with None show ?thesis by (simp add: infer_service_def infer_service_spec_def)
  next
    case (Some t)
    show ?thesis
    proof (cases "t = []")
      case True
      with None Some show ?thesis
        by (simp add: infer_service_def infer_service_spec_def keyword_rules_def lower_def str_def)
    next
      case False
      with None Some show ?thesis
        by (simp add: infer_service_def infer_service_spec_def keyword_rules_def Let_def)
    qed
  qed
qed

text \<open>
  Claim C5. \<open>infer_service\<close> is a function of the port and the banner alone and
  follows the order of precedence of the specification (\<open>infer_service_spec\<close>): a
  port of the table gets the table's label whatever the banner; otherwise a banner
  that is present decides by the first rule of the ordered keyword list that
  matches, case ignored; otherwise the result is absent. The four examples of the
  specification hold, and where two rules match the earlier one wins.
\<close>

theorem infer_service_precedence:
  "infer_service p b = infer_service_spec p b \<and>
   infer_service 22 None = Some (str ''ssh'') \<and>
   infer_service 9999 (Some (str ''SSH-2.0-OpenSSH_8.0'')) = Some (str ''ssh'') \<and>
   infer_service 9999 None = None \<and>
   infer_service 443 (Some (str ''anything'')) = Some (str ''https'') \<and>
   infer_service 9999 (Some (str ''nginx over SSH'')) = Some (str ''ssh'')"
proof -
  have "infer_service 22 None = Some (str ''ssh'')"
    by (simp add: infer_service_def SERVICE_MAP_def)
  moreover have "infer_service 9999 (Some (str ''SSH-2.0-OpenSSH_8.0'')) = Some (str ''ssh'')"
    by (simp add: infer_service_def SERVICE_MAP_def str_def lower_def lower_cp_def)
  moreover have "infer_service 9999 None = None"
    by (simp add: infer_service_def SERVICE_MAP_def)
  moreover have "infer_service 443 (Some (str ''anything'')) = Some (str ''https'')"
    by (simp add: infer_service_def SERVICE_MAP_def)
  moreover have "infer_service 9999 (Some (str ''nginx over SSH'')) = Some (str ''ssh'')"
    by (simp add: infer_service_def SERVICE_MAP_def str_def lower_def lower_cp_def)
  ultimately show ?thesis using infer_service_refines [of p b] by blast
qed

section \<open>Banner reading\<close>

lemma length_decode_ignore: "length (decode_ignore bs) \<le> length bs"
proof (induction bs rule: decode_ignore.induct)
  case 1
  show ?case by simp
next
  case (2 b bs)
  show ?case
  proof (cases "utf8_next b bs")
    case None
    then have "length (decode_ignore bs) \<le> length bs" using "2.IH" by simp
    with None show ?thesis by simp
  next
    case (Some a)
    obtain cp n where a: "a = (cp, n)" by (cases a)
    have "length (decode_ignore (drop n bs)) \<le> length (drop n bs)"
      using "2.IH" Some a by simp
    with Some a show ?thesis by simp
  qed
qed

lemma length_strip: "length (strip s) \<le> length s"
proof -
  have "length (strip s) \<le> length (dropWhile isspace s)"
    using length_dropWhile_le [of isspace "rev (dropWhile isspace s)"]
    by (simp add: strip_def rstrip_def lstrip_def)
  also have "\<dots> \<le> length s" by (rule length_dropWhile_le)
  finally show ?thesis .
qed

lemma strip_trimmed:
  "strip s = [] \<or> (\<not> isspace (hd (strip s)) \<and> \<not> isspace (last (strip s)))"
proof (cases "strip s = []")
  case True
  then show ?thesis by simp
next
  case False
  let ?t = "dropWhile isspace s"
  let ?d = "dropWhile isspace (rev ?t)"
  have st: "strip s = rev ?d" by (simp add: strip_def rstrip_def lstrip_def)
  with False have d: "?d \<noteq> []" by simp
  then have "\<not> isspace (hd ?d)" by (rule hd_dropWhile)
  then have l: "\<not> isspace (last (strip s))" using d by (simp add: st last_rev)
  have "?t = rev ?d @ rev (takeWhile isspace (rev ?t))"
    by (metis rev_append rev_rev_ident takeWhile_dropWhile_id)
  then have t: "?t = strip s @ rev (takeWhile isspace (rev ?t))" by (simp only: st)
  with False have tne: "?t \<noteq> []" by (metis Nil_is_append_conv)
  then have "\<not> isspace (hd ?t)" by (rule hd_dropWhile)
  moreover have "hd ?t = hd (strip s)" using t False by (metis hd_append2)
  ultimately show ?thesis using l by simp
qed

lemma grab_banner_fst:
  "fst (grab_banner conn w) =
     (case read_event conn of
        Inr buffer \<Rightarrow>
          if take 256 buffer \<noteq> [] then Returns (Some (strip (decode_ignore (take 256 buffer))))
          else Returns None
      | Inl e \<Rightarrow>
          if e = AsyncioTimeoutError \<or> e = IncompleteReadError then Returns None else Raises e)"
  by (simp add: grab_banner_def reader_read_def split: sum.splits)

text \<open>
  Claim C7. On every way out of \<open>grab_banner\<close>, whether the read returned data,
  returned nothing, timed out or raised any exception, and whether the call returns
  or raises, \<open>writer.close()\<close> has been called on the handle passed in, once, before
  the call ends; and unless \<open>close()\<close> itself raised, the closing has been waited
  for with \<open>wait_closed()\<close>.
\<close>

theorem grab_banner_closes_writer:
  "close_calls (snd (grab_banner conn w)) = close_calls w + 1 \<and>
   (close_event conn = None \<longrightarrow>
      wait_closed_calls (snd (grab_banner conn w)) = wait_closed_calls w + 1)"
  by (simp add: grab_banner_def close_writer_def Let_def split: option.splits)

theorem grab_banner_closes_writer_witness:
  "close_event \<lparr>read_event = Inl ConnectionResetError, close_event = None,
                 wait_closed_event = Some OSError\<rparr> = None \<and>
   fst (grab_banner \<lparr>read_event = Inl ConnectionResetError, close_event = None,
                      wait_closed_event = Some OSError\<rparr> new_writer)
     = Raises ConnectionResetError \<and>
   snd (grab_banner \<lparr>read_event = Inl ConnectionResetError, close_event = None,
                      wait_closed_event = Some OSError\<rparr> new_writer)
     = \<lparr>close_calls = 1, wait_closed_calls = 1\<rparr>"
  using grab_banner_closes_writer
          [of "\<lparr>read_event = Inl ConnectionResetError, close_event = None,
                 wait_closed_event = Some OSError\<rparr>" new_writer]
  by (simp add: grab_banner_fst) (simp add: grab_banner_def close_writer_def new_writer_def)

text \<open>
  Claim C6 says that the banner is absent whenever the received bytes decode and
  trim to the empty string. The bytes of a single space do, and the banner is then
  present and empty, unlike the absent banner of a timeout.
\<close>

theorem grab_banner_blank_counterexample:
  "strip (decode_ignore (take 256 [0x20])) = [] \<and>
   fst (grab_banner \<lparr>read_event = Inr [0x20], close_event = None, wait_closed_event = None\<rparr>
          new_writer) = Returns (Some []) \<and>
   fst (grab_banner \<lparr>read_event = Inl AsyncioTimeoutError, close_event = None,
          wait_closed_event = None\<rparr> new_writer) = Returns None"
  by (simp add: grab_banner_fst utf8_next_def strip_def lstrip_def rstrip_def isspace_def)

text \<open>
  Claim C6, amended. \<open>grab_banner\<close> reads once, at most 256 bytes. When the read
  returns bytes, they are decoded with invalid sequences dropped, nothing is raised,
  and the trimmed text is returned: it is present even when it is empty. The
  banner is absent when the read returns no bytes or times out. A banner that is
  returned has at most 256 characters and no white space at either end.
\<close>

theorem grab_banner_result:
  "(read_event conn = Inr buffer \<and> buffer \<noteq> [] \<longrightarrow>
      fst (grab_banner conn w) = Returns (Some (strip (decode_ignore (take 256 buffer))))) \<and>
   (read_event conn = Inr [] \<or> read_event conn = Inl AsyncioTimeoutError \<longrightarrow>
      fst (grab_banner conn w) = Returns None) \<and>
   (fst (grab_banner conn w) = Returns (Some b) \<longrightarrow>
      length b \<le> 256 \<and> (b = [] \<or> (\<not> isspace (hd b) \<and> \<not> isspace (last b))))"
proof -
  have 1: "fst (grab_banner conn w) = Returns (Some (strip (decode_ignore (take 256 buffer))))"
    if "read_event conn = Inr buffer" "buffer \<noteq> []"
    using that by (simp add: grab_banner_fst)
  have 2: "fst (grab_banner conn w) = Returns None"
    if "read_event conn = Inr [] \<or> read_event conn = Inl AsyncioTimeoutError"
    using that by (auto simp: grab_banner_fst)
  have 3: "length b \<le> 256 \<and> (b = [] \<or> (\<not> isspace (hd b) \<and> \<not> isspace (last b)))"
    if r: "fst (grab_banner conn w) = Returns (Some b)"
  proof -
    from r obtain buffer where b: "b = strip (decode_ignore (take 256 buffer))"
      by (auto simp: grab_banner_fst split: sum.splits if_splits)
    have "length b \<le> length (decode_ignore (take 256 buffer))"
      unfolding b by (rule length_strip)
    also have "\<dots> \<le> length (take 256 buffer)" by (rule length_decode_ignore)
    also have "\<dots> \<le> 256" by simp
    finally have "length b \<le> 256" .
    then show ?thesis using strip_trimmed [of "decode_ignore (take 256 buffer)"] b by simp
  qed
  from 1 2 3 show ?thesis by blast
qed

theorem grab_banner_result_witness:
  "read_event \<lparr>read_event = Inr [0x53, 0x53, 0x48, 0x0D, 0x0A], close_event = None,
                wait_closed_event = None\<rparr> = Inr [0x53, 0x53, 0x48, 0x0D, 0x0A] \<and>
   [0x53, 0x53, 0x48, 0x0D, 0x0A] \<noteq> ([] :: byte list) \<and>
   fst (grab_banner \<lparr>read_event = Inr [0x53, 0x53, 0x48, 0x0D, 0x0A], close_event = None,
                      wait_closed_event = None\<rparr> new_writer) = Returns (Some (str ''SSH''))"
proof -
  have "strip (decode_ignore (take 256 [0x53, 0x53, 0x48, 0x0D, 0x0A])) = str ''SSH''"
    by (simp add: utf8_next_def strip_def lstrip_def rstrip_def isspace_def str_def)
  then show ?thesis
    using grab_banner_result
            [of "\<lparr>read_event = Inr [0x53, 0x53, 0x48, 0x0D, 0x0A], close_event = None,
                   wait_closed_event = None\<rparr>"
                "[0x53, 0x53, 0x48, 0x0D, 0x0A]" new_writer "str ''SSH''"]
    by simp
qed

section \<open>Scanning\<close>

text \<open>
  Claim C2. A port whose connection attempt times out, is refused, or fails with
  any other operating system error gets the result with status \<open>closed\<close>, no
  service and no banner: one and the same record for the three causes.
\<close>

theorem scan_port_closed_on_failure:
  "net ip p k = ConnectRaises e \<Longrightarrow>
   e = AsyncioTimeoutError \<or> e = ConnectionRefusedError \<or> is_OSError e \<Longrightarrow>
   scan_port net k ip p =
     Returns \<lparr>port = p, status = str ''closed'', banner = None, service = None\<rparr>"
  by (auto simp: scan_port_def try_connect_def)

theorem scan_port_closed_on_failure_witness:
  "scan_port (\<lambda>ip p k. ConnectRaises AsyncioTimeoutError) 0 (str ''10.0.0.1'') 80 =
     Returns \<lparr>port = 80, status = str ''closed'', banner = None, service = None\<rparr> \<and>
   scan_port (\<lambda>ip p k. ConnectRaises ConnectionRefusedError) 0 (str ''10.0.0.1'') 80 =
     scan_port (\<lambda>ip p k. ConnectRaises AsyncioTimeoutError) 0 (str ''10.0.0.1'') 80 \<and>
   scan_port (\<lambda>ip p k. ConnectRaises OSError) 0 (str ''10.0.0.1'') 80 =
     scan_port (\<lambda>ip p k. ConnectRaises AsyncioTimeoutError) 0 (str ''10.0.0.1'') 80"
  using scan_port_closed_on_failure
          [of "\<lambda>ip p k. ConnectRaises AsyncioTimeoutError" "str ''10.0.0.1''" 80 0 AsyncioTimeoutError]
        scan_port_closed_on_failure
          [of "\<lambda>ip p k. ConnectRaises ConnectionRefusedError" "str ''10.0.0.1''" 80 0 ConnectionRefusedError]
        scan_port_closed_on_failure
          [of "\<lambda>ip p k. ConnectRaises OSError" "str ''10.0.0.1''" 80 0 OSError]
  by simp

lemma run_scan_resolution_failure:
  "resolve_target dns target = Raises e \<Longrightarrow> run_scan dns net finished target ports concurrency = Raises e"
  by (simp add: run_scan_def)

lemma scan_port_completes:
  "probe_completes (net ip p k) \<Longrightarrow> \<exists>r. scan_port net k ip p = Returns r \<and> port r = p"
  by (auto simp: probe_completes_def scan_port_def try_connect_def grab_banner_fst
           split: connect_event.splits sum.splits)

lemma raised_none: "\<forall>t \<in> set ts. \<exists>r. t = Returns r \<Longrightarrow> raised finished k ts = []"
  by (induction ts arbitrary: k) auto

lemma returned_all:
  "\<forall>t \<in> set ts. \<exists>r. t = Returns r \<Longrightarrow> \<exists>rs. returned ts = Some rs \<and> ts = map Returns rs"
  by (induction ts) auto

lemma gather_all_return:
  "\<forall>t \<in> set ts. \<exists>r. t = Returns r \<Longrightarrow>
   \<exists>rs. gather finished ts = Returns rs \<and> ts = map Returns rs"
  using returned_all [of ts] by (auto simp: gather_def raised_none)

lemma gather_first_in_time:
  "gather finished [Raises a, Returns r, Raises b] =
     (if finished 0 \<le> finished 2 then Raises a else Raises b)"
  by (simp add: gather_def numeral_2_eq_2)

lemma set_enumerate_index:
  "(k, p) \<in> set (enumerate n ps) \<Longrightarrow> n \<le> k \<and> k - n < length ps \<and> p = ps ! (k - n)"
  by (auto simp: in_set_enumerate_eq)

lemma tasks_return:
  assumes "\<forall>k<length ports. probe_completes (net ip (ports ! k) k)"
  shows "\<exists>rs. gather finished (map (\<lambda>(k, p). scan_port net k ip p) (enumerate 0 ports))
                = Returns rs
              \<and> map port rs = ports"
proof -
  let ?ts = "map (\<lambda>(k, p). scan_port net k ip p) (enumerate 0 ports)"
  have len: "length ?ts = length ports" by simp
  have each: "\<exists>r. ?ts ! k = Returns r \<and> port r = ports ! k" if "k < length ports" for k
    using that assms scan_port_completes [of net ip "ports ! k" k]
    by (simp add: nth_enumerate_eq)
  have "\<forall>t \<in> set ?ts. \<exists>r. t = Returns r"
  proof
    fix t assume "t \<in> set ?ts"
    then obtain k where "k < length ?ts" "?ts ! k = t" by (auto simp: in_set_conv_nth)
    with each [of k] len show "\<exists>r. t = Returns r" by auto
  qed
  then obtain rs where g: "gather finished ?ts = Returns rs" and m: "?ts = map Returns rs"
    using gather_all_return [of ?ts finished] by blast
  from m len have lrs: "length rs = length ports" by (metis length_map)
  have "map port rs = ports"
  proof (rule nth_equalityI)
    show "length (map port rs) = length ports" using lrs by simp
  next
    fix k assume "k < length (map port rs)"
    then have k: "k < length ports" using lrs by simp
    with each obtain r where r: "?ts ! k = Returns r" "port r = ports ! k" by blast
    have "?ts ! k = Returns (rs ! k)" using m k lrs by (metis nth_map)
    with r have "rs ! k = r" by simp
    with r k lrs show "map port rs ! k = ports ! k" by simp
  qed
  with g show ?thesis by blast
qed

text \<open>
  Claim C1, amended. When the target resolves, the concurrency limit is at least
  one, and every probe ends in a way \<open>scan_port\<close> handles, \<open>run_scan\<close> returns
  exactly one result for each requested port, and the port numbers of the returned
  list are the requested ones in ascending order, whatever their order in the
  request and however many connections succeed.
\<close>

theorem run_scan_sorted_results:
  assumes "resolve_target dns target = Returns ip"
    and "1 \<le> concurrency"
    and "\<forall>k<length ports. probe_completes (net ip (ports ! k) k)"
  shows "\<exists>rs. run_scan dns net finished target ports concurrency = Returns rs \<and>
              length rs = length ports \<and> map port rs = sort ports"
proof -
  from tasks_return [of ports net ip finished] assms(3) obtain rs0
    where g: "gather finished (map (\<lambda>(k, p). scan_port net k ip p) (enumerate 0 ports))
                = Returns rs0"
      and m: "map port rs0 = ports" by blast
  have r: "run_scan dns net finished target ports concurrency = Returns (sort_key port rs0)"
    using assms(1,2) g by (simp add: run_scan_def)
  have "sorted (map port (sort_key port rs0))" by (rule sorted_sort_key)
  moreover have "mset (map port (sort_key port rs0)) = mset ports"
    using m by (metis mset_map mset_sort)
  ultimately have "map port (sort_key port rs0) = sort ports"
    by (metis properties_for_sort)
  moreover have "length (sort_key port rs0) = length ports" using m by (metis length_map length_sort)
  ultimately show ?thesis using r by blast
qed

theorem run_scan_sorted_results_witness:
  "resolve_target \<lparr>inet_aton = (\<lambda>t. None), getaddrinfo = (\<lambda>t. Inl gaierror)\<rparr>
     (str ''127.0.0.1'') = Returns (str ''127.0.0.1'') \<and>
   (1 :: int) \<le> 500 \<and>
   probe_completes (ConnectRaises ConnectionRefusedError) \<and>
   (\<exists>rs. run_scan \<lparr>inet_aton = (\<lambda>t. None), getaddrinfo = (\<lambda>t. Inl gaierror)\<rparr>
           (\<lambda>ip p k. ConnectRaises ConnectionRefusedError) (\<lambda>k. k)
           (str ''127.0.0.1'') [9999, 22, 80] 500 = Returns rs \<and>
         length rs = 3 \<and> map port rs = [22, 80, 9999])"
proof -
  have r: "resolve_target \<lparr>inet_aton = (\<lambda>t. None), getaddrinfo = (\<lambda>t. Inl gaierror)\<rparr>
     (str ''127.0.0.1'') = Returns (str ''127.0.0.1'')"
    by (simp add: resolve_target_def)
  have c: "probe_completes (ConnectRaises ConnectionRefusedError)"
    by (simp add: probe_completes_def)
  have "\<exists>rs. run_scan \<lparr>inet_aton = (\<lambda>t. None), getaddrinfo = (\<lambda>t. Inl gaierror)\<rparr>
           (\<lambda>ip p k. ConnectRaises ConnectionRefusedError) (\<lambda>k. k)
           (str ''127.0.0.1'') [9999, 22, 80] 500 = Returns rs \<and>
         length rs = length [9999, 22, 80 :: int] \<and> map port rs = sort [9999, 22, 80]"
    using c by (intro run_scan_sorted_results [OF r]) simp_all
  then show ?thesis using r c by (simp add: numeral_3_eq_3)
qed

text \<open>
  Claim C1 as it is stated, for every target: a target that does not resolve makes
  \<open>run_scan\<close> raise the error of the lookup, and no list of results is returned.
\<close>

theorem run_scan_unresolved_counterexample:
  "run_scan \<lparr>inet_aton = (\<lambda>t. Some OSError), getaddrinfo = (\<lambda>t. Inl gaierror)\<rparr>
     (\<lambda>ip p k. ConnectRaises ConnectionRefusedError) (\<lambda>k. k)
     (str ''no-such-host.invalid'') [80, 22] 500
   = Raises gaierror"
  by (simp add: run_scan_def resolve_target_def)

text \<open>
  Claim C8. The first half holds: when the target does not resolve, \<open>run_scan\<close>
  raises the error of the lookup whatever the network would do, so no probe has any
  part in it (\<open>run_scan_resolution_failure\<close>). The second half fails: the target
  resolves, the connection to the one requested port opens, and the peer resets it
  before sending a banner. The read raises \<open>ConnectionResetError\<close>, which
  \<open>grab_banner\<close> does not catch although \<open>try_connect\<close> catches the same class at
  connection time, and \<open>run_scan\<close> raises it.
\<close>

theorem run_scan_read_error:
  "run_scan \<lparr>inet_aton = (\<lambda>t. None), getaddrinfo = (\<lambda>t. Inl gaierror)\<rparr>
     (\<lambda>ip p k. ConnectOk \<lparr>read_event = Inl ConnectionResetError, close_event = None,
                             wait_closed_event = None\<rparr>)
     (\<lambda>k. k) (str ''127.0.0.1'') [80] 1
   = Raises ConnectionResetError"
  by (simp add: run_scan_def resolve_target_def scan_port_def try_connect_def grab_banner_fst
        gather_def enumerate_eq_zip)

end
